theory Spec2Isabelle
  imports Main "HOL-Library.Char_ord" "HOL-Library.List_Lexorder"
    "HOL-Library.Product_Lexorder" "HOL-Library.Option_ord" "HOL-Library.Multiset"
    "HOL-Library.Word"
begin

unbundle bit_operations_syntax

section \<open>The store of todo\_app.py\<close>

text \<open>
  The class \<^verbatim>\<open>Database\<close> wraps one SQLite connection with two tables. A table is the
  list of its rows in rowid order. A column is given the type of the values the code
  writes to it: \<^verbatim>\<open>due_time\<close> and \<^verbatim>\<open>completed_date\<close> receive \<^verbatim>\<open>None\<close> (SQL NULL) and are
  options; every other column only ever receives a Python \<^verbatim>\<open>str\<close>, \<^verbatim>\<open>int\<close> or \<^verbatim>\<open>bytes\<close>.
  The column \<^verbatim>\<open>id\<close> of \<^verbatim>\<open>todos\<close> is the field \<open>todo_id\<close>, the column \<^verbatim>\<open>id\<close> of \<^verbatim>\<open>users\<close> the
  field \<open>u_id\<close>. Text is a \<open>string\<close>, a list of bytes (UTF-8); SQLite compares text
  with \<^verbatim>\<open>memcmp\<close> (shorter prefix first), Python compares \<^verbatim>\<open>str\<close> by code points, and both
  are the lexicographic order of the byte lists.

  Both tables are declared \<^verbatim>\<open>INTEGER PRIMARY KEY AUTOINCREMENT\<close>: the next rowid is one more
  than the largest rowid ever given out, which SQLite keeps in \<^verbatim>\<open>sqlite_sequence\<close>; the
  fields \<open>users_seq\<close> and \<open>todos_seq\<close> hold it.
\<close>

type_synonym bytes = "8 word list"

record user =
  u_id :: int
  username :: string
  password_hash :: bytes

record todo =
  todo_id :: int
  user_id :: int
  date :: string
  title :: string
  description :: string
  status :: string
  due_time :: "string option"
  completed_date :: "string option"
  priority :: string

record database =
  users :: "user list"
  users_seq :: int
  todos :: "todo list"
  todos_seq :: int

text \<open>\<^verbatim>\<open>Database.__init__\<close> on a new file: both tables exist and are empty.\<close>

definition init_db :: database where
  "init_db = \<lparr>users = [], users_seq = 0, todos = [], todos_seq = 0\<rparr>"

subsection \<open>Statements\<close>

text \<open>
  \<^verbatim>\<open>UPDATE todos SET ... WHERE w\<close> and \<^verbatim>\<open>DELETE FROM todos WHERE w\<close>: the new table and
  \<^verbatim>\<open>cursor.rowcount\<close>, the number of rows the \<^verbatim>\<open>WHERE\<close> matched.
\<close>

definition sql_update :: "(todo \<Rightarrow> bool) \<Rightarrow> (todo \<Rightarrow> todo) \<Rightarrow> database \<Rightarrow> nat \<times> database" where
  "sql_update w f db =
     (length (filter w (todos db)), db\<lparr>todos := map (\<lambda>t. if w t then f t else t) (todos db)\<rparr>)"

definition sql_delete :: "(todo \<Rightarrow> bool) \<Rightarrow> database \<Rightarrow> nat \<times> database" where
  "sql_delete w db =
     (length (filter w (todos db)), db\<lparr>todos := filter (\<lambda>t. \<not> w t) (todos db)\<rparr>)"

text \<open>
  The seven columns every \<^verbatim>\<open>SELECT\<close> of the todo queries returns, as the tuple
  \<^verbatim>\<open>fetchall\<close> gives: id, date, title, description, status, due\_time, priority.
\<close>

type_synonym row = "int \<times> string \<times> string \<times> string \<times> string \<times> string option \<times> string"

definition select_cols :: "todo \<Rightarrow> row" where
  "select_cols t =
     (todo_id t, date t, title t, description t, status t, due_time t, priority t)"

fun row_id :: "row \<Rightarrow> int" where
  "row_id (i, d, ttl, descr, st, due, prio) = i"

fun row_date :: "row \<Rightarrow> string" where
  "row_date (i, d, ttl, descr, st, due, prio) = d"

fun row_status :: "row \<Rightarrow> string" where
  "row_status (i, d, ttl, descr, st, due, prio) = st"

fun row_due_time :: "row \<Rightarrow> string option" where
  "row_due_time (i, d, ttl, descr, st, due, prio) = due"

fun row_priority :: "row \<Rightarrow> string" where
  "row_priority (i, d, ttl, descr, st, due, prio) = prio"

text \<open>
  \<^verbatim>\<open>CASE priority WHEN 'high' THEN 1 WHEN 'medium' THEN 2 WHEN 'low' THEN 3 END\<close>: with no
  \<^verbatim>\<open>ELSE\<close>, any other priority gives NULL (\<open>None\<close>).
\<close>

definition priority_rank :: "string \<Rightarrow> nat option" where
  "priority_rank p =
     (if p = ''high'' then Some 1
      else if p = ''medium'' then Some 2
      else if p = ''low'' then Some 3
      else None)"

text \<open>
  \<^verbatim>\<open>ORDER BY k1, k2, ...\<close> sorts by the tuple of keys, lexicographically; in an ascending
  order SQLite puts NULL before every other value, which is the order of \<open>option\<close> with
  \<open>None\<close> least. \<^verbatim>\<open>id DESC\<close> is the key \<open>- id\<close>. Rows whose keys are all equal come in an
  order SQL leaves open; \<open>sort_key\<close> keeps them in table order.
\<close>

subsection \<open>The operations on todos\<close>

definition add_todo ::
  "database \<Rightarrow> int \<Rightarrow> string \<Rightarrow> string \<Rightarrow> string \<Rightarrow> string option \<Rightarrow> string \<Rightarrow> int \<times> database" where
  \<comment> \<open>The defaults of the source are \<open>description = ''''\<close>, \<open>due_time = None\<close>,
      \<open>priority = ''medium''\<close>; \<open>status\<close> and \<open>completed_date\<close> take the column defaults.
      The result is \<^verbatim>\<open>cursor.lastrowid\<close> and the new store.\<close>
  "add_todo db uid d ttl descr due prio =
     (let lastrowid = todos_seq db + 1;
          new = \<lparr>todo_id = lastrowid, user_id = uid, date = d, title = ttl,
                 description = descr, status = ''pending'', due_time = due,
                 completed_date = None, priority = prio\<rparr>
      in (lastrowid, db\<lparr>todos := todos db @ [new], todos_seq := lastrowid\<rparr>))"

definition rows_by_date :: "database \<Rightarrow> int \<Rightarrow> string \<Rightarrow> todo list" where
  "rows_by_date db uid d =
     sort_key (\<lambda>t. (priority_rank (priority t), - todo_id t))
       (filter (\<lambda>t. user_id t = uid \<and> date t = d) (todos db))"

definition get_todos_by_date :: "database \<Rightarrow> int \<Rightarrow> string \<Rightarrow> row list" where
  "get_todos_by_date db uid d = map select_cols (rows_by_date db uid d)"

definition rows_by_priority :: "database \<Rightarrow> int \<Rightarrow> todo list" where
  "rows_by_priority db uid =
     sort_key (\<lambda>t. (priority_rank (priority t), date t, due_time t))
       (filter (\<lambda>t. user_id t = uid \<and> status t = ''pending'') (todos db))"

definition get_todos_by_priority :: "database \<Rightarrow> int \<Rightarrow> row list" where
  "get_todos_by_priority db uid = map select_cols (rows_by_priority db uid)"

definition update_todo ::
  "database \<Rightarrow> int \<Rightarrow> string \<Rightarrow> string \<Rightarrow> string option \<Rightarrow> string option \<Rightarrow> bool \<times> database" where
  \<comment> \<open>\<open>due = None\<close> and \<open>prio = None\<close> are the source's \<^verbatim>\<open>None\<close>: the column is left out
      of the \<^verbatim>\<open>SET\<close> list.\<close>
  "update_todo db tid ttl descr due prio =
     (let set_cols = (\<lambda>t. t\<lparr>title := ttl, description := descr,
                            due_time := (case due of None \<Rightarrow> due_time t | Some v \<Rightarrow> Some v),
                            priority := (case prio of None \<Rightarrow> priority t | Some v \<Rightarrow> v)\<rparr>);
          (rowcount, db') = sql_update (\<lambda>t. todo_id t = tid) set_cols db
      in (rowcount > 0, db'))"

definition delete_todo :: "database \<Rightarrow> int \<Rightarrow> bool \<times> database" where
  "delete_todo db tid =
     (let (rowcount, db') = sql_delete (\<lambda>t. todo_id t = tid) db in (rowcount > 0, db'))"

definition mark_todo_as_done :: "database \<Rightarrow> string \<Rightarrow> int \<Rightarrow> bool \<times> database" where
  \<comment> \<open>\<open>now\<close> is \<^verbatim>\<open>datetime.datetime.now().strftime("%Y-%m-%d %H:%M:%S")\<close>.\<close>
  "mark_todo_as_done db now tid =
     (let (rowcount, db') =
            sql_update (\<lambda>t. todo_id t = tid)
              (\<lambda>t. t\<lparr>status := ''completed'', completed_date := Some now\<rparr>) db
      in (rowcount > 0, db'))"

definition mark_todo_as_pending :: "database \<Rightarrow> int \<Rightarrow> bool \<times> database" where
  "mark_todo_as_pending db tid =
     (let (rowcount, db') =
            sql_update (\<lambda>t. todo_id t = tid)
              (\<lambda>t. t\<lparr>status := ''pending'', completed_date := None\<rparr>) db
      in (rowcount > 0, db'))"

subsection \<open>Statistics\<close>

text \<open>
  The third query of \<^verbatim>\<open>get_todo_stats\<close> compares the nullable column \<^verbatim>\<open>due_time\<close>, so
  its \<^verbatim>\<open>WHERE\<close> is evaluated in SQL's three-valued logic: a comparison with NULL is NULL
  (\<open>None\<close>), \<^verbatim>\<open>AND\<close> and \<^verbatim>\<open>OR\<close> follow Kleene's tables, and a row is selected when the
  condition is true.
\<close>

definition sql_lt :: "'a::linorder option \<Rightarrow> 'a option \<Rightarrow> bool option" where
  "sql_lt a b = (case (a, b) of (Some x, Some y) \<Rightarrow> Some (x < y) | _ \<Rightarrow> None)"

definition sql_eq :: "'a option \<Rightarrow> 'a option \<Rightarrow> bool option" where
  "sql_eq a b = (case (a, b) of (Some x, Some y) \<Rightarrow> Some (x = y) | _ \<Rightarrow> None)"

definition sql_is_not_null :: "'a option \<Rightarrow> bool option" where
  "sql_is_not_null a = Some (a \<noteq> None)"

fun sql_and :: "bool option \<Rightarrow> bool option \<Rightarrow> bool option" where
  "sql_and (Some False) b = Some False"
| "sql_and a (Some False) = Some False"
| "sql_and (Some True) (Some True) = Some True"
| "sql_and a b = None"

fun sql_or :: "bool option \<Rightarrow> bool option \<Rightarrow> bool option" where
  "sql_or (Some True) b = Some True"
| "sql_or a (Some True) = Some True"
| "sql_or (Some False) (Some False) = Some False"
| "sql_or a b = None"

definition sql_where :: "bool option \<Rightarrow> bool" where
  "sql_where v = (v = Some True)"

definition overdue_where :: "int \<Rightarrow> string \<Rightarrow> string \<Rightarrow> todo \<Rightarrow> bool option" where
  \<comment> \<open>\<^verbatim>\<open>user_id = ? AND status = 'pending' AND
      (date < ? OR (date = ? AND due_time < ? AND due_time IS NOT NULL))\<close>\<close>
  "overdue_where uid current_date current_time t =
     sql_and
       (sql_and (sql_eq (Some (user_id t)) (Some uid))
                (sql_eq (Some (status t)) (Some ''pending'')))
       (sql_or (sql_lt (Some (date t)) (Some current_date))
               (sql_and
                  (sql_and (sql_eq (Some (date t)) (Some current_date))
                           (sql_lt (due_time t) (Some current_time)))
                  (sql_is_not_null (due_time t))))"

definition overdue_rows :: "database \<Rightarrow> int \<Rightarrow> string \<Rightarrow> string \<Rightarrow> todo list" where
  "overdue_rows db uid current_date current_time =
     filter (\<lambda>t. sql_where (overdue_where uid current_date current_time t)) (todos db)"

record stats =
  completed :: nat
  pending :: nat
  overdue :: nat

definition get_todo_stats :: "database \<Rightarrow> int \<Rightarrow> string \<Rightarrow> string \<Rightarrow> stats" where
  \<comment> \<open>\<open>current_date\<close> and \<open>current_time\<close> are \<^verbatim>\<open>datetime.datetime.now()\<close> formatted
      \<^verbatim>\<open>%Y-%m-%d\<close> and \<^verbatim>\<open>%H:%M\<close>; each \<^verbatim>\<open>COUNT(*)\<close> is the number of selected rows.\<close>
  "get_todo_stats db uid current_date current_time =
     \<lparr>completed = length (filter (\<lambda>t. user_id t = uid \<and> status t = ''completed'') (todos db)),
      pending = length (filter (\<lambda>t. user_id t = uid \<and> status t = ''pending'') (todos db)),
      overdue = length (overdue_rows db uid current_date current_time)\<rparr>"

subsection \<open>The callers in TodoApp\<close>

text \<open>
  \<^verbatim>\<open>TodoApp.save_todo\<close>, from the point where it has read the form: the entries are the
  stripped texts of the widgets, \<open>calendar_date\<close> is \<^verbatim>\<open>self.calendar.get_date()\<close>,
  \<open>save_btn\<close> the text of the save button, and the result is the message box shown and
  the store after the call. \<^verbatim>\<open>validate_time_format\<close> is \<^verbatim>\<open>datetime.strptime\<close> with
  \<^verbatim>\<open>%H:%M\<close>, a library function, and is a parameter. A selected identifier is truthy
  (rowids start at 1).
\<close>

datatype message = ShowError string | ShowInfo string

record form =
  title_entry :: string
  description_text :: string
  due_time_entry :: string
  priority_var :: string
  save_btn :: string
  calendar_date :: string
  selected_todo_id :: "int option"

definition save_todo ::
  "(string \<Rightarrow> bool) \<Rightarrow> database \<Rightarrow> int \<Rightarrow> form \<Rightarrow> string \<Rightarrow> string \<Rightarrow> message \<times> database" where
  "save_todo validate_time_format db uid f current_date current_time =
     (let ttl = title_entry f; descr = description_text f;
          due = due_time_entry f; prio = priority_var f;
          selected_date = calendar_date f
      in if due \<noteq> [] \<and> \<not> validate_time_format due
           then (ShowError ''Due time must be in HH:MM format'', db)
         else if ttl = []
           then (ShowError ''Title is required'', db)
         else if save_btn f = ''Add Todo'' \<and> selected_date < current_date
           then (ShowError ''Cannot add todos for past dates'', db)
         else if save_btn f = ''Add Todo'' \<and> selected_date = current_date \<and> due \<noteq> []
                 \<and> due < current_time
           then (ShowError ''Cannot add todos with past time'', db)
         else if save_btn f = ''Update Todo''
           then (case selected_todo_id f of
                   None \<Rightarrow> (ShowError ''Failed to update todo'', db)
                 | Some tid \<Rightarrow>
                     (let (ok, db') = update_todo db tid ttl descr
                                        (if due \<noteq> [] then Some due else None) (Some prio)
                      in if ok then (ShowInfo ''Todo updated successfully'', db')
                         else (ShowError ''Failed to update todo'', db')))
         else (let (new_id, db') = add_todo db uid selected_date ttl descr
                                     (if due \<noteq> [] then Some due else None) prio
               in if new_id \<noteq> 0 then (ShowInfo ''Todo added successfully'', db')
                  else (ShowError ''Failed to add todo'', db')))"

text \<open>
  The class \<^verbatim>\<open>Database\<close> defines \<^verbatim>\<open>search_todos(self)\<close> with no further parameter; its
  body is a copy of the view's method and begins by reading \<^verbatim>\<open>self.search_entry\<close>, an
  attribute a \<^verbatim>\<open>Database\<close> never has. A call is modelled by the list of its positional
  arguments after \<^verbatim>\<open>self\<close>: any argument is a \<^verbatim>\<open>TypeError\<close> before the body runs, and with
  none the first statement raises \<^verbatim>\<open>AttributeError\<close>.
\<close>

datatype py_error = TypeError | AttributeError

datatype py_value = PyInt int | PyStr string

definition Database_search_todos :: "database \<Rightarrow> py_value list \<Rightarrow> py_error + row list" where
  "Database_search_todos db args = (if args \<noteq> [] then Inl TypeError else Inl AttributeError)"

datatype search_outcome = Info string | Results "row list"

definition TodoApp_search_todos :: "database \<Rightarrow> int \<Rightarrow> string \<Rightarrow> py_error + search_outcome" where
  \<comment> \<open>\<open>keyword\<close> is the stripped text of the search entry; the rows found are displayed
      in the order the store returned them.\<close>
  "TodoApp_search_todos db uid keyword =
     (if keyword = [] then Inr (Info ''Please enter a search keyword'')
      else (case Database_search_todos db [PyInt uid, PyStr keyword] of
              Inl e \<Rightarrow> Inl e
            | Inr found \<Rightarrow>
                if found = [] then Inr (Info ''No todos found matching your search'')
                else Inr (Results found)))"

subsection \<open>Users\<close>

text \<open>
  \<^verbatim>\<open>hashlib.pbkdf2_hmac('sha256', password, salt, 100000)\<close> is a library function: the
  operations take it as the parameter \<open>kdf\<close>, from the password's bytes and the salt to
  the derived key. \<^verbatim>\<open>os.urandom(32)\<close> is the argument \<open>salt\<close>. A password is the string of
  its UTF-8 bytes, so \<^verbatim>\<open>encode('utf-8')\<close> only changes the type.
\<close>

definition encode :: "string \<Rightarrow> bytes" where
  "encode s = map (\<lambda>c. of_nat (of_char c)) s"

definition hash_password :: "(bytes \<Rightarrow> bytes \<Rightarrow> bytes) \<Rightarrow> string \<Rightarrow> bytes \<Rightarrow> bytes" where
  "hash_password kdf password salt = salt @ kdf (encode password) salt"

definition verify_password :: "(bytes \<Rightarrow> bytes \<Rightarrow> bytes) \<Rightarrow> bytes \<Rightarrow> string \<Rightarrow> bool" where
  "verify_password kdf stored_password provided_password =
     (let salt = take 32 stored_password;
          stored_key = drop 32 stored_password;
          key = kdf (encode provided_password) salt
      in key = stored_key)"

definition register_user ::
  "(bytes \<Rightarrow> bytes \<Rightarrow> bytes) \<Rightarrow> database \<Rightarrow> string \<Rightarrow> string \<Rightarrow> bytes \<Rightarrow> bool \<times> database" where
  \<comment> \<open>The \<^verbatim>\<open>UNIQUE\<close> constraint on \<^verbatim>\<open>username\<close> raises \<^verbatim>\<open>IntegrityError\<close>, which the
      source turns into \<^verbatim>\<open>False\<close>; the failed statement changes nothing.\<close>
  "register_user kdf db uname password salt =
     (if uname \<in> set (map username (users db)) then (False, db)
      else (True,
            db\<lparr>users := users db @
                  [\<lparr>u_id = users_seq db + 1, username = uname,
                    password_hash = hash_password kdf password salt\<rparr>],
               users_seq := users_seq db + 1\<rparr>))"

definition authenticate_user ::
  "(bytes \<Rightarrow> bytes \<Rightarrow> bytes) \<Rightarrow> database \<Rightarrow> string \<Rightarrow> string \<Rightarrow> int option" where
  \<comment> \<open>\<^verbatim>\<open>fetchone\<close> is the first row of the given name. The stored hash is the \<^verbatim>\<open>bytes\<close>
      that \<^verbatim>\<open>register_user\<close> wrote, so the \<^verbatim>\<open>isinstance(stored_password, str)\<close> branch
      is not taken.\<close>
  "authenticate_user kdf db uname password =
     (case find (\<lambda>u. username u = uname) (users db) of
        None \<Rightarrow> None
      | Some result \<Rightarrow>
          if verify_password kdf (password_hash result) password
          then Some (u_id result) else None)"

subsection \<open>The key derivation of hashlib\<close>

text \<open>
  \<^verbatim>\<open>hashlib.pbkdf2_hmac('sha256', password, salt, 100000)\<close> is PBKDF2 (RFC 8018) with
  HMAC (RFC 2104) over SHA-256 (FIPS 180-4) and the digest size as the length of the key,
  so the key is the first block \<open>T\<^sub>1\<close>. The definitions follow the three standards; the
  hash is a parameter of HMAC and PBKDF2.
\<close>

definition K256 :: "32 word list" where
  "K256 =
     [0x428a2f98, 0x71374491, 0xb5c0fbcf, 0xe9b5dba5,
      0x3956c25b, 0x59f111f1, 0x923f82a4, 0xab1c5ed5,
      0xd807aa98, 0x12835b01, 0x243185be, 0x550c7dc3,
      0x72be5d74, 0x80deb1fe, 0x9bdc06a7, 0xc19bf174,
      0xe49b69c1, 0xefbe4786, 0x0fc19dc6, 0x240ca1cc,
      0x2de92c6f, 0x4a7484aa, 0x5cb0a9dc, 0x76f988da,
      0x983e5152, 0xa831c66d, 0xb00327c8, 0xbf597fc7,
      0xc6e00bf3, 0xd5a79147, 0x06ca6351, 0x14292967,
      0x27b70a85, 0x2e1b2138, 0x4d2c6dfc, 0x53380d13,
      0x650a7354, 0x766a0abb, 0x81c2c92e, 0x92722c85,
      0xa2bfe8a1, 0xa81a664b, 0xc24b8b70, 0xc76c51a3,
      0xd192e819, 0xd6990624, 0xf40e3585, 0x106aa070,
      0x19a4c116, 0x1e376c08, 0x2748774c, 0x34b0bcb5,
      0x391c0cb3, 0x4ed8aa4a, 0x5b9cca4f, 0x682e6ff3,
      0x748f82ee, 0x78a5636f, 0x84c87814, 0x8cc70208,
      0x90befffa, 0xa4506ceb, 0xbef9a3f7, 0xc67178f2]"

definition H256 :: "32 word list" where
  "H256 =
     [0x6a09e667, 0xbb67ae85, 0x3c6ef372, 0xa54ff53a,
      0x510e527f, 0x9b05688c, 0x1f83d9ab, 0x5be0cd19]"

definition Ch :: "32 word \<Rightarrow> 32 word \<Rightarrow> 32 word \<Rightarrow> 32 word" where
  "Ch x y z = (x AND y) XOR (NOT x AND z)"

definition Maj :: "32 word \<Rightarrow> 32 word \<Rightarrow> 32 word \<Rightarrow> 32 word" where
  "Maj x y z = (x AND y) XOR (x AND z) XOR (y AND z)"

definition Sigma0 :: "32 word \<Rightarrow> 32 word" where
  "Sigma0 x = word_rotr 2 x XOR word_rotr 13 x XOR word_rotr 22 x"

definition Sigma1 :: "32 word \<Rightarrow> 32 word" where
  "Sigma1 x = word_rotr 6 x XOR word_rotr 11 x XOR word_rotr 25 x"

definition sigma0 :: "32 word \<Rightarrow> 32 word" where
  "sigma0 x = word_rotr 7 x XOR word_rotr 18 x XOR drop_bit 3 x"

definition sigma1 :: "32 word \<Rightarrow> 32 word" where
  "sigma1 x = word_rotr 17 x XOR word_rotr 19 x XOR drop_bit 10 x"

text \<open>Big-endian words of a block, and the bytes of a word.\<close>

fun be_words :: "bytes \<Rightarrow> 32 word list" where
  "be_words (a # b # c # d # bs) =
     (push_bit 24 (ucast a) OR push_bit 16 (ucast b) OR push_bit 8 (ucast c) OR ucast d)
       # be_words bs"
| "be_words bs = []"

definition be_bytes :: "32 word \<Rightarrow> bytes" where
  "be_bytes w = [ucast (drop_bit 24 w), ucast (drop_bit 16 w), ucast (drop_bit 8 w), ucast w]"

text \<open>
  Padding: the byte 0x80, zeros up to 56 modulo 64, and the length of the message in
  bits as eight big-endian bytes.
\<close>

definition sha256_pad :: "bytes \<Rightarrow> bytes" where
  "sha256_pad m =
     m @ [0x80] @ replicate ((119 - length m mod 64) mod 64) 0 @
     map (\<lambda>i. ucast (drop_bit (8 * (7 - i)) (of_nat (8 * length m) :: 64 word))) [0..<8]"

text \<open>The message schedule: the sixteen words of the block extended to sixty-four.\<close>

primrec schedule :: "nat \<Rightarrow> 32 word list \<Rightarrow> 32 word list" where
  "schedule 0 w = w"
| "schedule (Suc n) w =
     schedule n
       (w @ [sigma1 (w ! (length w - 2)) + w ! (length w - 7) +
             sigma0 (w ! (length w - 15)) + w ! (length w - 16)])"

fun round256 :: "32 word list \<Rightarrow> 32 word \<times> 32 word \<Rightarrow> 32 word list" where
  "round256 [a, b, c, d, e, f, g, h] (k, w) =
     (let t1 = h + Sigma1 e + Ch e f g + k + w;
          t2 = Sigma0 a + Maj a b c
      in [t1 + t2, a, b, c, d + t1, e, f, g])"
| "round256 s kw = s"

definition compress :: "32 word list \<Rightarrow> bytes \<Rightarrow> 32 word list" where
  "compress hs block =
     map2 (+) hs (foldl round256 hs (zip K256 (schedule 48 (be_words block))))"

fun blocks :: "nat \<Rightarrow> bytes \<Rightarrow> bytes list" where
  "blocks 0 bs = []"
| "blocks (Suc n) bs = take 64 bs # blocks n (drop 64 bs)"

definition sha256 :: "bytes \<Rightarrow> bytes" where
  "sha256 m =
     concat (map be_bytes
       (foldl compress H256 (blocks (length (sha256_pad m) div 64) (sha256_pad m))))"

text \<open>
  HMAC over a hash \<open>H\<close> with blocks of 64 bytes: a key longer than a block is hashed
  first, and the key is filled with zeros to the length of a block.
\<close>

definition hmac_key :: "(bytes \<Rightarrow> bytes) \<Rightarrow> bytes \<Rightarrow> bytes" where
  "hmac_key H k =
     (let k' = (if length k > 64 then H k else k) in k' @ replicate (64 - length k') 0)"

definition hmac :: "(bytes \<Rightarrow> bytes) \<Rightarrow> bytes \<Rightarrow> bytes \<Rightarrow> bytes" where
  "hmac H k m =
     H (map (\<lambda>b. b XOR 0x5c) (hmac_key H k) @ H (map (\<lambda>b. b XOR 0x36) (hmac_key H k) @ m))"

text \<open>
  PBKDF2 with one block: \<open>U\<^sub>1 = PRF (P, S || INT 1)\<close>, \<open>U\<^sub>j = PRF (P, U\<^sub>j\<^sub>-\<^sub>1)\<close>, and the key
  is the exclusive or of \<open>U\<^sub>1, ..., U\<^sub>c\<close>.
\<close>

primrec pbkdf2_rounds :: "(bytes \<Rightarrow> bytes) \<Rightarrow> bytes \<Rightarrow> nat \<Rightarrow> bytes \<Rightarrow> bytes \<Rightarrow> bytes" where
  "pbkdf2_rounds H p 0 u t = t"
| "pbkdf2_rounds H p (Suc n) u t =
     pbkdf2_rounds H p n (hmac H p u) (map2 (XOR) t (hmac H p u))"

definition pbkdf2_hmac :: "(bytes \<Rightarrow> bytes) \<Rightarrow> bytes \<Rightarrow> bytes \<Rightarrow> nat \<Rightarrow> bytes" where
  "pbkdf2_hmac H p s c =
     pbkdf2_rounds H p (c - 1) (hmac H p (s @ [0, 0, 0, 1])) (hmac H p (s @ [0, 0, 0, 1]))"

definition pbkdf2_hmac_sha256 :: "bytes \<Rightarrow> bytes \<Rightarrow> bytes" where
  "pbkdf2_hmac_sha256 password salt = pbkdf2_hmac sha256 password salt 100000"

subsection \<open>The clock\<close>

text \<open>
  The text of the current time of day: \<^verbatim>\<open>strftime("%H:%M")\<close> of an hour and a minute,
  each written with two digits.
\<close>

definition two_digits :: "nat \<Rightarrow> string" where
  "two_digits n = [char_of (48 + n div 10), char_of (48 + n mod 10)]"

definition strftime_HM :: "nat \<Rightarrow> nat \<Rightarrow> string" where
  "strftime_HM h m = two_digits h @ '':'' @ two_digits m"

subsection \<open>Reachable stores\<close>

text \<open>
  One step is one call of a mutating operation of \<^verbatim>\<open>Database\<close>, with any arguments; a
  salt is 32 bytes, as \<^verbatim>\<open>os.urandom(32)\<close> returns.
\<close>

inductive step :: "(bytes \<Rightarrow> bytes \<Rightarrow> bytes) \<Rightarrow> database \<Rightarrow> database \<Rightarrow> bool"
  for kdf :: "bytes \<Rightarrow> bytes \<Rightarrow> bytes" where
  step_register: "length salt = 32 \<Longrightarrow> step kdf db (snd (register_user kdf db uname password salt))"
| step_add: "step kdf db (snd (add_todo db uid d ttl descr due prio))"
| step_update: "step kdf db (snd (update_todo db tid ttl descr due prio))"
| step_delete: "step kdf db (snd (delete_todo db tid))"
| step_done: "step kdf db (snd (mark_todo_as_done db now tid))"
| step_pending: "step kdf db (snd (mark_todo_as_pending db tid))"

inductive reachable :: "(bytes \<Rightarrow> bytes \<Rightarrow> bytes) \<Rightarrow> database \<Rightarrow> bool"
  for kdf :: "bytes \<Rightarrow> bytes \<Rightarrow> bytes" where
  reachable_init: "reachable kdf init_db"
| reachable_step: "reachable kdf db \<Longrightarrow> step kdf db db' \<Longrightarrow> reachable kdf db'"

subsection \<open>The orders of the two views\<close>

text \<open>
  The order of the daily view: priority rank ascending, then identifier descending.
\<close>

definition daily_order :: "row \<Rightarrow> row \<Rightarrow> bool" where
  "daily_order a b =
     (priority_rank (row_priority a) < priority_rank (row_priority b) \<or>
      priority_rank (row_priority a) = priority_rank (row_priority b) \<and> row_id b \<le> row_id a)"

text \<open>
  The order of the pending view: priority rank, then date, then due time, the last
  compared by \<open>due_le\<close>. Two ways to place a missing due time: before every time, or
  after every time (the second is the wording of the specification).
\<close>

definition nulls_first_le :: "string option \<Rightarrow> string option \<Rightarrow> bool" where
  "nulls_first_le a b =
     (case a of None \<Rightarrow> True | Some x \<Rightarrow> (case b of None \<Rightarrow> False | Some y \<Rightarrow> x \<le> y))"

definition spec_nulls_last_le :: "string option \<Rightarrow> string option \<Rightarrow> bool" where
  "spec_nulls_last_le a b =
     (case b of None \<Rightarrow> True | Some y \<Rightarrow> (case a of None \<Rightarrow> False | Some x \<Rightarrow> x \<le> y))"

definition pending_order ::
  "(string option \<Rightarrow> string option \<Rightarrow> bool) \<Rightarrow> row \<Rightarrow> row \<Rightarrow> bool" where
  "pending_order due_le a b =
     (priority_rank (row_priority a) < priority_rank (row_priority b) \<or>
      priority_rank (row_priority a) = priority_rank (row_priority b) \<and>
        (row_date a < row_date b \<or>
         row_date a = row_date b \<and> due_le (row_due_time a) (row_due_time b)))"

subsection \<open>Predicates of the properties\<close>

text \<open>
  The invariant of the data model: a todo has a completed date exactly when its status
  is completed.
\<close>

definition completed_inv :: "database \<Rightarrow> bool" where
  "completed_inv db =
     list_all (\<lambda>t. (completed_date t \<noteq> None) = (status t = ''completed'')) (todos db)"

text \<open>The same store with the todos given to other owners: todo \<open>i\<close> to user \<open>g i\<close>.\<close>

definition with_owner :: "(int \<Rightarrow> int) \<Rightarrow> database \<Rightarrow> database" where
  "with_owner g db = db\<lparr>todos := map (\<lambda>t. t\<lparr>user_id := g (todo_id t)\<rparr>) (todos db)\<rparr>"

section \<open>Properties\<close>

subsection \<open>Updating a todo\<close>

lemma sql_update_simps:
  "fst (sql_update w f db) = length (filter w (todos db))"
  "todos (snd (sql_update w f db)) = map (\<lambda>t. if w t then f t else t) (todos db)"
  "users (snd (sql_update w f db)) = users db"
  "users_seq (snd (sql_update w f db)) = users_seq db"
  "todos_seq (snd (sql_update w f db)) = todos_seq db"
  by (simp_all add: sql_update_def)

lemma sql_update_no_match:
  "\<forall>t \<in> set (todos db). \<not> w t \<Longrightarrow> snd (sql_update w f db) = db"
  by (simp add: sql_update_def map_idI)

lemma update_todo_fst:
  "fst (update_todo db tid ttl descr due prio) = (\<exists>t \<in> set (todos db). todo_id t = tid)"
  by (auto simp add: update_todo_def sql_update_def filter_empty_conv)

lemma update_todo_todos:
  "todos (snd (update_todo db tid ttl descr due prio)) =
     map (\<lambda>t. if todo_id t = tid
               then t\<lparr>title := ttl, description := descr,
                      due_time := (case due of None \<Rightarrow> due_time t | Some v \<Rightarrow> Some v),
                      priority := (case prio of None \<Rightarrow> priority t | Some v \<Rightarrow> v)\<rparr>
               else t) (todos db)"
  by (simp add: update_todo_def sql_update_def)

lemma update_todo_rest:
  "users (snd (update_todo db tid ttl descr due prio)) = users db"
  "users_seq (snd (update_todo db tid ttl descr due prio)) = users_seq db"
  "todos_seq (snd (update_todo db tid ttl descr due prio)) = todos_seq db"
  by (simp_all add: update_todo_def sql_update_def)

text \<open>
  Claim C7. \<^verbatim>\<open>update_todo\<close> returns true exactly when a row has the identifier. Row by
  row, the new table keeps the identifier, the owner, the date, the status and the
  completed date; a row with the identifier gets the supplied title and description, and
  the supplied due time and priority when they are not \<^verbatim>\<open>None\<close>; every other row is
  unchanged, as are the user table and both sequences. When no row matched, the store is
  the one before the call.
\<close>

theorem update_todo_frame:
  "fst (update_todo db tid ttl descr due prio) = (\<exists>t \<in> set (todos db). todo_id t = tid) \<and>
   list_all2
     (\<lambda>t t'. todo_id t' = todo_id t \<and> user_id t' = user_id t \<and> date t' = date t \<and>
             status t' = status t \<and> completed_date t' = completed_date t \<and>
             (if todo_id t = tid
              then title t' = ttl \<and> description t' = descr \<and>
                   due_time t' = (case due of None \<Rightarrow> due_time t | Some v \<Rightarrow> Some v) \<and>
                   priority t' = (case prio of None \<Rightarrow> priority t | Some v \<Rightarrow> v)
              else t' = t))
     (todos db) (todos (snd (update_todo db tid ttl descr due prio))) \<and>
   users (snd (update_todo db tid ttl descr due prio)) = users db \<and>
   users_seq (snd (update_todo db tid ttl descr due prio)) = users_seq db \<and>
   todos_seq (snd (update_todo db tid ttl descr due prio)) = todos_seq db \<and>
   (\<not> fst (update_todo db tid ttl descr due prio) \<longrightarrow>
      snd (update_todo db tid ttl descr due prio) = db)"
proof -
  have "\<not> fst (update_todo db tid ttl descr due prio) \<Longrightarrow>
      snd (update_todo db tid ttl descr due prio) = db"
  proof -
    assume "\<not> fst (update_todo db tid ttl descr due prio)"
    then have "\<forall>t \<in> set (todos db). \<not> todo_id t = tid"
      by (simp add: update_todo_fst)
    then have "snd (sql_update (\<lambda>t. todo_id t = tid)
        (\<lambda>t. t\<lparr>title := ttl, description := descr,
                            due_time := (case due of None \<Rightarrow> due_time t | Some v \<Rightarrow> Some v),
                            priority := (case prio of None \<Rightarrow> priority t | Some v \<Rightarrow> v)\<rparr>) db) = db"
      by (rule sql_update_no_match)
    then show ?thesis
      by (simp add: update_todo_def split_beta)
  qed
  moreover have "list_all2
     (\<lambda>t t'. todo_id t' = todo_id t \<and> user_id t' = user_id t \<and> date t' = date t \<and>
             status t' = status t \<and> completed_date t' = completed_date t \<and>
             (if todo_id t = tid
              then title t' = ttl \<and> description t' = descr \<and>
                   due_time t' = (case due of None \<Rightarrow> due_time t | Some v \<Rightarrow> Some v) \<and>
                   priority t' = (case prio of None \<Rightarrow> priority t | Some v \<Rightarrow> v)
              else t' = t))
     (todos db) (todos (snd (update_todo db tid ttl descr due prio)))"
    by (simp add: update_todo_todos list_all2_map2 list_all2_same)
  ultimately show ?thesis
    by (simp add: update_todo_fst update_todo_rest)
qed


text \<open>The case of no match, on a store of one todo and the identifier 7.\<close>

theorem update_todo_frame_witness:
  "\<not> fst (update_todo (snd (add_todo init_db 1 ''2024-01-10'' ''Buy milk'' [] None ''high''))
            7 ''Call bank'' ''today'' None None) \<and>
   snd (update_todo (snd (add_todo init_db 1 ''2024-01-10'' ''Buy milk'' [] None ''high''))
            7 ''Call bank'' ''today'' None None) =
     snd (add_todo init_db 1 ''2024-01-10'' ''Buy milk'' [] None ''high'')"
  using update_todo_frame
    [of "snd (add_todo init_db 1 ''2024-01-10'' ''Buy milk'' [] None ''high'')" 7
        "''Call bank''" "''today''" None None]
  by (simp add: add_todo_def init_db_def)

subsection \<open>Completing and reopening\<close>

lemma mark_todo_as_done_fst:
  "fst (mark_todo_as_done db now tid) = (\<exists>t \<in> set (todos db). todo_id t = tid)"
  by (auto simp add: mark_todo_as_done_def split_beta sql_update_def filter_empty_conv)

lemma mark_todo_as_done_todos:
  "todos (snd (mark_todo_as_done db now tid)) =
     map (\<lambda>t. if todo_id t = tid then t\<lparr>status := ''completed'', completed_date := Some now\<rparr>
               else t) (todos db)"
  by (simp add: mark_todo_as_done_def split_beta sql_update_simps)

lemma mark_todo_as_pending_fst:
  "fst (mark_todo_as_pending db tid) = (\<exists>t \<in> set (todos db). todo_id t = tid)"
  by (auto simp add: mark_todo_as_pending_def split_beta sql_update_def filter_empty_conv)

lemma mark_todo_as_pending_todos:
  "todos (snd (mark_todo_as_pending db tid)) =
     map (\<lambda>t. if todo_id t = tid then t\<lparr>status := ''pending'', completed_date := None\<rparr>
               else t) (todos db)"
  by (simp add: mark_todo_as_pending_def split_beta sql_update_simps)

lemma delete_todo_fst:
  "fst (delete_todo db tid) = (\<exists>t \<in> set (todos db). todo_id t = tid)"
  by (auto simp add: delete_todo_def split_beta sql_delete_def filter_empty_conv)

lemma delete_todo_todos:
  "todos (snd (delete_todo db tid)) = filter (\<lambda>t. todo_id t \<noteq> tid) (todos db)"
  by (simp add: delete_todo_def split_beta sql_delete_def)

lemma has_id_map:
  "(\<exists>t \<in> set (map (\<lambda>t. if todo_id t = tid then f t else t) xs). todo_id t = tid') =
   (\<exists>t \<in> set xs. todo_id t = tid')" if "\<And>t. todo_id (f t) = todo_id t"
  using that by (induction xs) auto

text \<open>
  Claim C8. Each of the four calls returns true exactly when the store has a todo of the
  identifier: \<^verbatim>\<open>mark_todo_as_done\<close>, \<^verbatim>\<open>mark_todo_as_pending\<close> after it, a second
  \<^verbatim>\<open>mark_todo_as_done\<close> after it, and \<^verbatim>\<open>mark_todo_as_pending\<close> alone; so all succeed on an
  existing todo and all return false on a missing identifier. Completing and then
  reopening leaves the todos of the identifier pending with no completed date, and
  nothing else changed. Completing stamps the completed date with the time of the call,
  and completing again stamps it with the time of the second call.
\<close>

theorem mark_done_pending:
  "fst (mark_todo_as_done db now tid) = (\<exists>t \<in> set (todos db). todo_id t = tid) \<and>
   fst (mark_todo_as_pending (snd (mark_todo_as_done db now tid)) tid) =
     (\<exists>t \<in> set (todos db). todo_id t = tid) \<and>
   todos (snd (mark_todo_as_pending (snd (mark_todo_as_done db now tid)) tid)) =
     map (\<lambda>t. if todo_id t = tid then t\<lparr>status := ''pending'', completed_date := None\<rparr> else t)
       (todos db) \<and>
   fst (mark_todo_as_done (snd (mark_todo_as_done db now tid)) now' tid) =
     (\<exists>t \<in> set (todos db). todo_id t = tid) \<and>
   todos (snd (mark_todo_as_done db now tid)) =
     map (\<lambda>t. if todo_id t = tid then t\<lparr>status := ''completed'', completed_date := Some now\<rparr>
               else t) (todos db) \<and>
   todos (snd (mark_todo_as_done (snd (mark_todo_as_done db now tid)) now' tid)) =
     map (\<lambda>t. if todo_id t = tid then t\<lparr>status := ''completed'', completed_date := Some now'\<rparr>
               else t) (todos db) \<and>
   fst (mark_todo_as_pending db tid) = (\<exists>t \<in> set (todos db). todo_id t = tid)"
proof -
  have "fst (mark_todo_as_pending (snd (mark_todo_as_done db now tid)) tid) =
     (\<exists>t \<in> set (todos db). todo_id t = tid)"
    unfolding mark_todo_as_pending_fst mark_todo_as_done_todos by (rule has_id_map) simp
  moreover have "fst (mark_todo_as_done (snd (mark_todo_as_done db now tid)) now' tid) =
     (\<exists>t \<in> set (todos db). todo_id t = tid)"
    unfolding mark_todo_as_done_fst mark_todo_as_done_todos by (rule has_id_map) simp
  moreover have "todos (snd (mark_todo_as_pending (snd (mark_todo_as_done db now tid)) tid)) =
     map (\<lambda>t. if todo_id t = tid then t\<lparr>status := ''pending'', completed_date := None\<rparr> else t)
       (todos db)"
    by (simp add: mark_todo_as_pending_todos mark_todo_as_done_todos)
  moreover have "todos (snd (mark_todo_as_done (snd (mark_todo_as_done db now tid)) now' tid)) =
     map (\<lambda>t. if todo_id t = tid then t\<lparr>status := ''completed'', completed_date := Some now'\<rparr>
               else t) (todos db)"
    by (simp add: mark_todo_as_done_todos)
  ultimately show ?thesis
    using mark_todo_as_done_fst [of db now tid] mark_todo_as_pending_fst [of db tid]
      mark_todo_as_done_todos [of db now tid]
    by blast
qed

subsection \<open>No operation looks at the owner\<close>

lemma with_owner_update_todo:
  "update_todo (with_owner g db) tid ttl descr due prio =
     (fst (update_todo db tid ttl descr due prio),
      with_owner g (snd (update_todo db tid ttl descr due prio)))"
  by (cases due; cases prio)
    (auto simp add: update_todo_def sql_update_def with_owner_def split_beta filter_map comp_def)

lemma with_owner_delete_todo:
  "delete_todo (with_owner g db) tid =
     (fst (delete_todo db tid), with_owner g (snd (delete_todo db tid)))"
  by (simp add: delete_todo_def sql_delete_def with_owner_def split_beta filter_map comp_def)

lemma with_owner_mark_todo_as_done:
  "mark_todo_as_done (with_owner g db) now tid =
     (fst (mark_todo_as_done db now tid), with_owner g (snd (mark_todo_as_done db now tid)))"
  by (simp add: mark_todo_as_done_def sql_update_def with_owner_def split_beta filter_map comp_def)

lemma with_owner_mark_todo_as_pending:
  "mark_todo_as_pending (with_owner g db) tid =
     (fst (mark_todo_as_pending db tid), with_owner g (snd (mark_todo_as_pending db tid)))"
  by (simp add: mark_todo_as_pending_def sql_update_def with_owner_def split_beta filter_map comp_def)

text \<open>
  Claim C10. The four operations take the identifier alone. For a todo \<open>t\<close> of the
  table, whoever owns it, each of them called with its identifier returns true and has
  its effect on \<open>t\<close>: the update writes the supplied fields, the delete leaves no todo of
  that identifier, completing and reopening set status and completed date. And no
  operation reads the owner: on the store with the todos given to other owners, every
  call returns the same value and yields the same store with owners changed alike.
\<close>

theorem no_ownership_check:
  assumes "t \<in> set (todos db)"
  shows "fst (update_todo db (todo_id t) ttl descr due prio) \<and>
    t\<lparr>title := ttl, description := descr,
      due_time := (case due of None \<Rightarrow> due_time t | Some v \<Rightarrow> Some v),
      priority := (case prio of None \<Rightarrow> priority t | Some v \<Rightarrow> v)\<rparr>
      \<in> set (todos (snd (update_todo db (todo_id t) ttl descr due prio))) \<and>
    fst (delete_todo db (todo_id t)) \<and>
    todo_id t \<notin> todo_id ` set (todos (snd (delete_todo db (todo_id t)))) \<and>
    fst (mark_todo_as_done db now (todo_id t)) \<and>
    t\<lparr>status := ''completed'', completed_date := Some now\<rparr>
      \<in> set (todos (snd (mark_todo_as_done db now (todo_id t)))) \<and>
    fst (mark_todo_as_pending db (todo_id t)) \<and>
    t\<lparr>status := ''pending'', completed_date := None\<rparr>
      \<in> set (todos (snd (mark_todo_as_pending db (todo_id t)))) \<and>
    update_todo (with_owner g db) tid ttl descr due prio =
      (fst (update_todo db tid ttl descr due prio),
       with_owner g (snd (update_todo db tid ttl descr due prio))) \<and>
    delete_todo (with_owner g db) tid =
      (fst (delete_todo db tid), with_owner g (snd (delete_todo db tid))) \<and>
    mark_todo_as_done (with_owner g db) now tid =
      (fst (mark_todo_as_done db now tid), with_owner g (snd (mark_todo_as_done db now tid))) \<and>
    mark_todo_as_pending (with_owner g db) tid =
      (fst (mark_todo_as_pending db tid), with_owner g (snd (mark_todo_as_pending db tid)))"
proof -
  have u: "fst (update_todo db (todo_id t) ttl descr due prio)"
    using assms by (auto simp add: update_todo_fst)
  have u': "t\<lparr>title := ttl, description := descr,
      due_time := (case due of None \<Rightarrow> due_time t | Some v \<Rightarrow> Some v),
      priority := (case prio of None \<Rightarrow> priority t | Some v \<Rightarrow> v)\<rparr>
      \<in> set (todos (snd (update_todo db (todo_id t) ttl descr due prio)))"
    using assms by (force simp add: update_todo_todos)
  have d: "fst (delete_todo db (todo_id t))"
    using assms by (auto simp add: delete_todo_fst)
  have d': "todo_id t \<notin> todo_id ` set (todos (snd (delete_todo db (todo_id t))))"
    by (auto simp add: delete_todo_todos)
  have c: "fst (mark_todo_as_done db now (todo_id t))"
    using assms by (auto simp add: mark_todo_as_done_fst)
  have c': "t\<lparr>status := ''completed'', completed_date := Some now\<rparr>
      \<in> set (todos (snd (mark_todo_as_done db now (todo_id t))))"
    using assms by (force simp add: mark_todo_as_done_todos)
  have p: "fst (mark_todo_as_pending db (todo_id t))"
    using assms by (auto simp add: mark_todo_as_pending_fst)
  have p': "t\<lparr>status := ''pending'', completed_date := None\<rparr>
      \<in> set (todos (snd (mark_todo_as_pending db (todo_id t))))"
    using assms by (force simp add: mark_todo_as_pending_todos)
  show ?thesis
    using u u' d d' c c' p p' with_owner_update_todo [of g db tid ttl descr due prio]
      with_owner_delete_todo [of g db tid] with_owner_mark_todo_as_done [of g db now tid]
      with_owner_mark_todo_as_pending [of g db tid]
    by blast
qed

text \<open>A todo of user 2 in a store where nobody has logged in as user 2.\<close>

theorem no_ownership_check_witness:
  "\<lparr>todo_id = 1, user_id = 2, date = ''2024-01-10'', title = ''Buy milk'', description = [],
     status = ''pending'', due_time = None, completed_date = None, priority = ''high''\<rparr>
     \<in> set (todos (snd (add_todo init_db 2 ''2024-01-10'' ''Buy milk'' [] None ''high''))) \<and>
   fst (update_todo (snd (add_todo init_db 2 ''2024-01-10'' ''Buy milk'' [] None ''high''))
          1 ''Call bank'' [] None None) \<and>
   fst (delete_todo (snd (add_todo init_db 2 ''2024-01-10'' ''Buy milk'' [] None ''high'')) 1) \<and>
   fst (mark_todo_as_done (snd (add_todo init_db 2 ''2024-01-10'' ''Buy milk'' [] None ''high''))
          ''2024-01-11 09:00:00'' 1) \<and>
   fst (mark_todo_as_pending
          (snd (add_todo init_db 2 ''2024-01-10'' ''Buy milk'' [] None ''high'')) 1)"
proof -
  have h: "\<lparr>todo_id = 1, user_id = 2, date = ''2024-01-10'', title = ''Buy milk'',
     description = [], status = ''pending'', due_time = None, completed_date = None,
     priority = ''high''\<rparr>
     \<in> set (todos (snd (add_todo init_db 2 ''2024-01-10'' ''Buy milk'' [] None ''high'')))"
    by (simp add: add_todo_def init_db_def)
  show ?thesis
    using h no_ownership_check [OF h, of "''Call bank''" "[]" None None "''2024-01-11 09:00:00''"]
    by simp
qed

subsection \<open>The completed date and the status\<close>

lemma completed_inv_init: "completed_inv init_db"
  by (simp add: completed_inv_def init_db_def)

lemma completed_inv_add_todo:
  "completed_inv db \<Longrightarrow> completed_inv (snd (add_todo db uid d ttl descr due prio))"
  by (simp add: completed_inv_def add_todo_def Let_def)

lemma completed_inv_update_todo:
  "completed_inv db \<Longrightarrow> completed_inv (snd (update_todo db tid ttl descr due prio))"
  by (auto simp add: completed_inv_def update_todo_todos list_all_iff)

lemma completed_inv_delete_todo:
  "completed_inv db \<Longrightarrow> completed_inv (snd (delete_todo db tid))"
  by (auto simp add: completed_inv_def delete_todo_todos list_all_iff)

lemma completed_inv_mark_todo_as_done:
  "completed_inv db \<Longrightarrow> completed_inv (snd (mark_todo_as_done db now tid))"
  by (auto simp add: completed_inv_def mark_todo_as_done_todos list_all_iff)

lemma completed_inv_mark_todo_as_pending:
  "completed_inv db \<Longrightarrow> completed_inv (snd (mark_todo_as_pending db tid))"
  by (auto simp add: completed_inv_def mark_todo_as_pending_todos list_all_iff)

lemma register_user_todos:
  "todos (snd (register_user kdf db uname password salt)) = todos db"
  by (simp add: register_user_def)

lemma completed_inv_step: "step kdf db db' \<Longrightarrow> completed_inv db \<Longrightarrow> completed_inv db'"
proof (induction rule: step.induct)
  case (step_register salt db uname password)
  then show ?case by (simp add: completed_inv_def register_user_todos)
qed (simp_all add: completed_inv_add_todo completed_inv_update_todo completed_inv_delete_todo
      completed_inv_mark_todo_as_done completed_inv_mark_todo_as_pending)

lemma completed_inv_reachable: "reachable kdf db \<Longrightarrow> completed_inv db"
  by (induction rule: reachable.induct) (auto simp add: completed_inv_init completed_inv_step)

text \<open>
  Claim C9. In every store reachable from the empty one by the mutating operations,
  each todo has a completed date exactly when its status is completed. Each operation
  on todos keeps the property from any store that has it; the todo that \<^verbatim>\<open>add_todo\<close>
  creates is pending with no completed date, and \<^verbatim>\<open>update_todo\<close> leaves status and
  completed date of every todo as they were.
\<close>

theorem completed_date_iff_completed:
  "(reachable kdf db \<longrightarrow>
      (\<forall>t \<in> set (todos db). (completed_date t \<noteq> None) = (status t = ''completed''))) \<and>
   (completed_inv db \<longrightarrow>
      completed_inv (snd (add_todo db uid d ttl descr due prio)) \<and>
      completed_inv (snd (update_todo db tid ttl' descr' due' prio')) \<and>
      completed_inv (snd (mark_todo_as_done db now tid)) \<and>
      completed_inv (snd (mark_todo_as_pending db tid)) \<and>
      completed_inv (snd (delete_todo db tid))) \<and>
   status (last (todos (snd (add_todo db uid d ttl descr due prio)))) = ''pending'' \<and>
   completed_date (last (todos (snd (add_todo db uid d ttl descr due prio)))) = None \<and>
   map status (todos (snd (update_todo db tid ttl' descr' due' prio'))) = map status (todos db) \<and>
   map completed_date (todos (snd (update_todo db tid ttl' descr' due' prio'))) =
     map completed_date (todos db)"
proof -
  have "reachable kdf db \<Longrightarrow>
      (\<forall>t \<in> set (todos db). (completed_date t \<noteq> None) = (status t = ''completed''))"
    using completed_inv_reachable [of kdf db] by (simp add: completed_inv_def list_all_iff)
  moreover have "status (last (todos (snd (add_todo db uid d ttl descr due prio)))) = ''pending''"
    "completed_date (last (todos (snd (add_todo db uid d ttl descr due prio)))) = None"
    by (simp_all add: add_todo_def Let_def)
  moreover have
    "map status (todos (snd (update_todo db tid ttl' descr' due' prio'))) = map status (todos db)"
    "map completed_date (todos (snd (update_todo db tid ttl' descr' due' prio'))) =
       map completed_date (todos db)"
    by (simp_all add: update_todo_todos comp_def if_distrib cong: if_cong)
  ultimately show ?thesis
    using completed_inv_add_todo [of db uid d ttl descr due prio]
      completed_inv_update_todo [of db tid ttl' descr' due' prio']
      completed_inv_mark_todo_as_done [of db now tid]
      completed_inv_mark_todo_as_pending [of db tid] completed_inv_delete_todo [of db tid]
    by blast
qed

text \<open>A store reached by adding a todo and completing it.\<close>

theorem completed_date_iff_completed_witness:
  "reachable (\<lambda>p s. [])
     (snd (mark_todo_as_done (snd (add_todo init_db 1 ''2024-01-10'' ''Buy milk'' [] None ''high''))
        ''2024-01-11 09:00:00'' 1)) \<and>
   todos (snd (mark_todo_as_done
        (snd (add_todo init_db 1 ''2024-01-10'' ''Buy milk'' [] None ''high''))
        ''2024-01-11 09:00:00'' 1)) =
     [\<lparr>todo_id = 1, user_id = 1, date = ''2024-01-10'', title = ''Buy milk'', description = [],
       status = ''completed'', due_time = None, completed_date = Some ''2024-01-11 09:00:00'',
       priority = ''high''\<rparr>] \<and>
   list_all (\<lambda>t. (completed_date t \<noteq> None) = (status t = ''completed''))
     (todos (snd (mark_todo_as_done
        (snd (add_todo init_db 1 ''2024-01-10'' ''Buy milk'' [] None ''high''))
        ''2024-01-11 09:00:00'' 1)))"
proof -
  have r: "reachable (\<lambda>p s. [])
     (snd (mark_todo_as_done (snd (add_todo init_db 1 ''2024-01-10'' ''Buy milk'' [] None ''high''))
        ''2024-01-11 09:00:00'' 1))"
    by (rule reachable_step [OF reachable_step [OF reachable_init step_add] step_done])
  have e: "todos (snd (mark_todo_as_done
        (snd (add_todo init_db 1 ''2024-01-10'' ''Buy milk'' [] None ''high''))
        ''2024-01-11 09:00:00'' 1)) =
     [\<lparr>todo_id = 1, user_id = 1, date = ''2024-01-10'', title = ''Buy milk'', description = [],
       status = ''completed'', due_time = None, completed_date = Some ''2024-01-11 09:00:00'',
       priority = ''high''\<rparr>]"
    by (simp add: mark_todo_as_done_todos add_todo_def init_db_def)
  from r completed_date_iff_completed
    [of "\<lambda>p s. []" "snd (mark_todo_as_done
        (snd (add_todo init_db 1 ''2024-01-10'' ''Buy milk'' [] None ''high''))
        ''2024-01-11 09:00:00'' 1)"]
  have "\<forall>t \<in> set (todos (snd (mark_todo_as_done
        (snd (add_todo init_db 1 ''2024-01-10'' ''Buy milk'' [] None ''high''))
        ''2024-01-11 09:00:00'' 1))). (completed_date t \<noteq> None) = (status t = ''completed'')"
    by blast
  then show ?thesis
    using r e by (simp only: list_all_iff)
qed

subsection \<open>The two ordered views\<close>

lemma priority_rank_values:
  "priority_rank ''high'' = Some 1" "priority_rank ''medium'' = Some 2"
  "priority_rank ''low'' = Some 3"
  by (simp_all add: priority_rank_def)

lemma select_cols_fields:
  "row_id (select_cols t) = todo_id t" "row_date (select_cols t) = date t"
  "row_status (select_cols t) = status t" "row_due_time (select_cols t) = due_time t"
  "row_priority (select_cols t) = priority t"
  by (simp_all add: select_cols_def)

lemma sorted_wrt_sort_key:
  assumes "\<And>a b. f a \<le> f b \<Longrightarrow> R (g a) (g b)"
  shows "sorted_wrt R (map g (sort_key f xs))"
proof -
  have "sorted (map f (sort_key f xs))"
    by (rule sorted_sort_key)
  then have "sorted_wrt (\<lambda>a b. f a \<le> f b) (sort_key f xs)"
    by (simp add: sorted_map)
  then have "sorted_wrt (\<lambda>a b. R (g a) (g b)) (sort_key f xs)"
    by (rule sorted_wrt_mono_rel [rotated]) (simp add: assms)
  then show ?thesis
    by (simp add: sorted_wrt_map)
qed

lemma nulls_first_le_iff: "nulls_first_le a b = (a \<le> b)"
  by (simp add: nulls_first_le_def split: option.splits)

text \<open>
  Claim C5. \<^verbatim>\<open>get_todos_by_date\<close> returns the selected columns of exactly the todos of
  the user on the date, each as often as the table holds it, ordered by priority rank
  ascending and, at equal rank, by identifier descending; the ranks of high, medium and
  low are 1, 2 and 3.
\<close>

theorem get_todos_by_date_daily_view:
  "mset (get_todos_by_date db uid d) =
     image_mset select_cols (filter_mset (\<lambda>t. user_id t = uid \<and> date t = d) (mset (todos db))) \<and>
   sorted_wrt daily_order (get_todos_by_date db uid d) \<and>
   priority_rank ''high'' = Some 1 \<and> priority_rank ''medium'' = Some 2 \<and>
   priority_rank ''low'' = Some 3"
proof -
  have "mset (get_todos_by_date db uid d) =
     image_mset select_cols (filter_mset (\<lambda>t. user_id t = uid \<and> date t = d) (mset (todos db)))"
    by (simp add: get_todos_by_date_def rows_by_date_def)
  moreover have "sorted_wrt daily_order (get_todos_by_date db uid d)"
    unfolding get_todos_by_date_def rows_by_date_def
    by (rule sorted_wrt_sort_key)
      (auto simp add: daily_order_def select_cols_fields less_eq_prod_def)
  ultimately show ?thesis
    by (simp add: priority_rank_values)
qed

text \<open>
  Claim C1, as the code has it. \<^verbatim>\<open>get_todos_by_priority\<close> returns the selected columns
  of exactly the pending todos of the user, so never a completed one, ordered by priority
  rank ascending, then date ascending, then due time ascending with a missing due time
  before every due time.
\<close>

theorem get_todos_by_priority_pending_view:
  "mset (get_todos_by_priority db uid) =
     image_mset select_cols
       (filter_mset (\<lambda>t. user_id t = uid \<and> status t = ''pending'') (mset (todos db))) \<and>
   list_all (\<lambda>r. row_status r = ''pending'') (get_todos_by_priority db uid) \<and>
   sorted_wrt (pending_order nulls_first_le) (get_todos_by_priority db uid) \<and>
   priority_rank ''high'' = Some 1 \<and> priority_rank ''medium'' = Some 2 \<and>
   priority_rank ''low'' = Some 3"
proof -
  have m: "mset (get_todos_by_priority db uid) =
     image_mset select_cols
       (filter_mset (\<lambda>t. user_id t = uid \<and> status t = ''pending'') (mset (todos db)))"
    by (simp add: get_todos_by_priority_def rows_by_priority_def)
  have "set (get_todos_by_priority db uid) =
     select_cols ` {t \<in> set (todos db). user_id t = uid \<and> status t = ''pending''}"
    by (simp add: get_todos_by_priority_def rows_by_priority_def)
  then have p: "list_all (\<lambda>r. row_status r = ''pending'') (get_todos_by_priority db uid)"
    by (auto simp add: list_all_iff select_cols_fields)
  have "sorted_wrt (pending_order nulls_first_le) (get_todos_by_priority db uid)"
    unfolding get_todos_by_priority_def rows_by_priority_def
    by (rule sorted_wrt_sort_key)
      (auto simp add: pending_order_def select_cols_fields less_eq_prod_def nulls_first_le_iff)
  with m p show ?thesis
    by (simp add: priority_rank_values)
qed

text \<open>
  Two pending todos of user 1 with the same priority and date, the first with a due time
  and the second without: the one without comes first, which the order with missing due
  times last forbids.
\<close>

theorem get_todos_by_priority_nulls_last_counterexample:
  "get_todos_by_priority
     (snd (add_todo (snd (add_todo init_db 1 ''2024-01-10'' ''Buy milk'' [] (Some ''09:00'') ''high''))
        1 ''2024-01-10'' ''Call bank'' [] None ''high'')) 1 =
     [(2, ''2024-01-10'', ''Call bank'', [], ''pending'', None, ''high''),
      (1, ''2024-01-10'', ''Buy milk'', [], ''pending'', Some ''09:00'', ''high'')] \<and>
   \<not> sorted_wrt (pending_order spec_nulls_last_le)
     (get_todos_by_priority
       (snd (add_todo (snd (add_todo init_db 1 ''2024-01-10'' ''Buy milk'' [] (Some ''09:00'') ''high''))
          1 ''2024-01-10'' ''Call bank'' [] None ''high'')) 1)"
proof -
  have e: "get_todos_by_priority
     (snd (add_todo (snd (add_todo init_db 1 ''2024-01-10'' ''Buy milk'' [] (Some ''09:00'') ''high''))
        1 ''2024-01-10'' ''Call bank'' [] None ''high'')) 1 =
     [(2, ''2024-01-10'', ''Call bank'', [], ''pending'', None, ''high''),
      (1, ''2024-01-10'', ''Buy milk'', [], ''pending'', Some ''09:00'', ''high'')]"
    by (simp add: get_todos_by_priority_def rows_by_priority_def add_todo_def init_db_def
        select_cols_def priority_rank_def)
  show ?thesis
    unfolding e by (simp add: pending_order_def spec_nulls_last_le_def)
qed

subsection \<open>Overdue todos\<close>

lemma sql_and_Some: "sql_and (Some a) (Some b) = Some (a \<and> b)"
  by (cases a; cases b) simp_all

lemma sql_or_Some: "sql_or (Some a) (Some b) = Some (a \<or> b)"
  by (cases a; cases b) simp_all

lemma sql_and_None: "sql_and (Some a) None = (if a then None else Some False)"
  by (cases a) simp_all

lemma sql_and_None_left: "sql_and None (Some b) = (if b then None else Some False)"
  by (cases b) simp_all

lemma overdue_where_iff:
  "sql_where (overdue_where uid cd ct t) =
     (user_id t = uid \<and> status t = ''pending'' \<and>
      (date t < cd \<or> date t = cd \<and> (\<exists>due. due_time t = Some due \<and> due < ct)))"
proof (cases "due_time t")
  case None
  then show ?thesis
    by (simp add: sql_where_def overdue_where_def sql_eq_def sql_lt_def sql_is_not_null_def
        sql_and_Some sql_or_Some sql_and_None sql_and_None_left)
next
  case (Some due)
  then show ?thesis
    by (simp add: sql_where_def overdue_where_def sql_eq_def sql_lt_def sql_is_not_null_def
        sql_and_Some sql_or_Some)
qed

lemma overdue_rows_eq:
  "overdue_rows db uid cd ct =
     filter (\<lambda>t. user_id t = uid \<and> status t = ''pending'' \<and>
       (date t < cd \<or> date t = cd \<and> (\<exists>due. due_time t = Some due \<and> due < ct))) (todos db)"
  by (simp add: overdue_rows_def overdue_where_iff)

lemma filter_after_update:
  assumes "\<And>t. \<not> P (g t)"
  shows "filter P (map (\<lambda>t. if todo_id t = tid then g t else t) xs) =
    filter (\<lambda>t. todo_id t \<noteq> tid) (filter P xs)"
  using assms by (induction xs) auto

lemma overdue_rows_mark_todo_as_done:
  "overdue_rows (snd (mark_todo_as_done db now tid)) uid cd ct =
     filter (\<lambda>t. todo_id t \<noteq> tid) (overdue_rows db uid cd ct)"
  unfolding overdue_rows_eq mark_todo_as_done_todos
  by (rule filter_after_update) simp

lemma overdue_rows_add_todo:
  "overdue_rows (snd (add_todo db uid' d ttl descr due prio)) uid cd ct =
     overdue_rows db uid cd ct @
     (if uid' = uid \<and> (d < cd \<or> d = cd \<and> (\<exists>x. due = Some x \<and> x < ct))
      then [\<lparr>todo_id = todos_seq db + 1, user_id = uid', date = d, title = ttl,
              description = descr, status = ''pending'', due_time = due,
              completed_date = None, priority = prio\<rparr>]
      else [])"
  by (simp add: overdue_rows_eq add_todo_def Let_def)

text \<open>
  The overdue count in terms of the stored texts: it is the number of the todos of the
  user that are pending and whose date text is below the current date, or is the
  current date with a due time text that is present and below the current time. Adding a
  todo raises the count by one when its texts are so, and completing a todo takes the
  todos of its identifier out of the count.
\<close>

lemma get_todo_stats_overdue:
  "overdue (get_todo_stats db uid cd ct) =
     length (filter (\<lambda>t. user_id t = uid \<and> status t = ''pending'' \<and>
       (date t < cd \<or> date t = cd \<and> (\<exists>due. due_time t = Some due \<and> due < ct))) (todos db)) \<and>
   overdue (get_todo_stats (snd (add_todo db uid d ttl descr new_due prio)) uid cd ct) =
     overdue (get_todo_stats db uid cd ct) +
     (if d < cd \<or> d = cd \<and> (\<exists>x. new_due = Some x \<and> x < ct) then 1 else 0) \<and>
   overdue (get_todo_stats (snd (mark_todo_as_done db now tid)) uid cd ct) =
     length (filter (\<lambda>t. todo_id t \<noteq> tid \<and> user_id t = uid \<and> status t = ''pending'' \<and>
       (date t < cd \<or> date t = cd \<and> (\<exists>due. due_time t = Some due \<and> due < ct))) (todos db))"
proof -
  have l: "overdue (get_todo_stats db uid cd ct) = length (overdue_rows db uid cd ct)" for db
    by (simp add: get_todo_stats_def)
  have "overdue (get_todo_stats db uid cd ct) =
     length (filter (\<lambda>t. user_id t = uid \<and> status t = ''pending'' \<and>
       (date t < cd \<or> date t = cd \<and> (\<exists>due. due_time t = Some due \<and> due < ct))) (todos db))"
    by (simp add: l overdue_rows_eq)
  moreover have
    "overdue (get_todo_stats (snd (add_todo db uid d ttl descr new_due prio)) uid cd ct) =
     overdue (get_todo_stats db uid cd ct) +
     (if d < cd \<or> d = cd \<and> (\<exists>x. new_due = Some x \<and> x < ct) then 1 else 0)"
    by (simp add: l overdue_rows_add_todo)
  moreover have "overdue (get_todo_stats (snd (mark_todo_as_done db now tid)) uid cd ct) =
     length (filter (\<lambda>t. todo_id t \<noteq> tid \<and> user_id t = uid \<and> status t = ''pending'' \<and>
       (date t < cd \<or> date t = cd \<and> (\<exists>due. due_time t = Some due \<and> due < ct))) (todos db))"
    by (simp add: l overdue_rows_mark_todo_as_done) (simp add: overdue_rows_eq conj_commute)
  ultimately show ?thesis
    by blast
qed

text \<open>
  The four cases of the specification at 10:00 on 2024-01-10: a pending todo dated the
  day before is counted and after \<^verbatim>\<open>mark_todo_as_done\<close> is not; a todo of the day due at
  10:01 is not counted and one due at 09:59 is.
\<close>

lemma get_todo_stats_overdue_examples:
  "overdue (get_todo_stats (snd (add_todo init_db 1 ''2024-01-09'' ''Buy milk'' [] None ''medium''))
     1 ''2024-01-10'' ''10:00'') = 1"
  "overdue (get_todo_stats
     (snd (mark_todo_as_done (snd (add_todo init_db 1 ''2024-01-09'' ''Buy milk'' [] None ''medium''))
        ''2024-01-10 09:30:00'' 1))
     1 ''2024-01-10'' ''10:00'') = 0"
  "overdue (get_todo_stats
     (snd (add_todo init_db 1 ''2024-01-10'' ''Buy milk'' [] (Some ''10:01'') ''medium''))
     1 ''2024-01-10'' ''10:00'') = 0"
  "overdue (get_todo_stats
     (snd (add_todo init_db 1 ''2024-01-10'' ''Buy milk'' [] (Some ''09:59'') ''medium''))
     1 ''2024-01-10'' ''10:00'') = 1"
  by (simp_all add: get_todo_stats_def overdue_rows_eq mark_todo_as_done_todos add_todo_def
      init_db_def)

text \<open>
  Claim C4. At 10:00 on 2024-01-10 the user saves a todo for the day with the due time
  \<open>9:30\<close>, half an hour in the past. \<^verbatim>\<open>save_todo\<close> stores the text as typed whenever
  \<^verbatim>\<open>validate_time_format\<close> accepts it (\<^verbatim>\<open>strptime\<close> reads an hour of one digit), its own
  check for a past time being a comparison of texts too. The overdue count of
  \<^verbatim>\<open>get_todo_stats\<close> at 10:00 is then 0: the query compares \<open>9:30\<close> with \<open>10:00\<close> as texts.
  The same todo with the due time written \<open>09:30\<close> is counted.
\<close>

theorem get_todo_stats_overdue_unpadded:
  "save_todo validate_time_format init_db 1
     \<lparr>title_entry = ''Buy milk'', description_text = [], due_time_entry = ''9:30'',
      priority_var = ''medium'', save_btn = ''Add Todo'', calendar_date = ''2024-01-10'',
      selected_todo_id = None\<rparr> ''2024-01-10'' ''10:00'' =
     (if validate_time_format ''9:30''
      then (ShowInfo ''Todo added successfully'',
            snd (add_todo init_db 1 ''2024-01-10'' ''Buy milk'' [] (Some ''9:30'') ''medium''))
      else (ShowError ''Due time must be in HH:MM format'', init_db)) \<and>
   overdue (get_todo_stats
     (snd (add_todo init_db 1 ''2024-01-10'' ''Buy milk'' [] (Some ''9:30'') ''medium''))
     1 ''2024-01-10'' ''10:00'') = 0 \<and>
   overdue (get_todo_stats
     (snd (add_todo init_db 1 ''2024-01-10'' ''Buy milk'' [] (Some ''09:30'') ''medium''))
     1 ''2024-01-10'' ''10:00'') = 1"
proof -
  have "save_todo validate_time_format init_db 1
     \<lparr>title_entry = ''Buy milk'', description_text = [], due_time_entry = ''9:30'',
      priority_var = ''medium'', save_btn = ''Add Todo'', calendar_date = ''2024-01-10'',
      selected_todo_id = None\<rparr> ''2024-01-10'' ''10:00'' =
     (if validate_time_format ''9:30''
      then (ShowInfo ''Todo added successfully'',
            snd (add_todo init_db 1 ''2024-01-10'' ''Buy milk'' [] (Some ''9:30'') ''medium''))
      else (ShowError ''Due time must be in HH:MM format'', init_db))"
    by (simp add: save_todo_def add_todo_def init_db_def)
  moreover have "overdue (get_todo_stats
     (snd (add_todo init_db 1 ''2024-01-10'' ''Buy milk'' [] (Some ''9:30'') ''medium''))
     1 ''2024-01-10'' ''10:00'') = 0"
    by (simp add: get_todo_stats_def overdue_rows_eq add_todo_def init_db_def)
  moreover have "overdue (get_todo_stats
     (snd (add_todo init_db 1 ''2024-01-10'' ''Buy milk'' [] (Some ''09:30'') ''medium''))
     1 ''2024-01-10'' ''10:00'') = 1"
    by (simp add: get_todo_stats_def overdue_rows_eq add_todo_def init_db_def)
  ultimately show ?thesis
    by blast
qed

subsection \<open>Empty titles\<close>

lemma add_todo_todos:
  "todos (snd (add_todo db uid d ttl descr due prio)) =
     todos db @
     [\<lparr>todo_id = todos_seq db + 1, user_id = uid, date = d, title = ttl, description = descr,
       status = ''pending'', due_time = due, completed_date = None, priority = prio\<rparr>]"
  by (simp add: add_todo_def Let_def)

lemma add_todo_fst: "fst (add_todo db uid d ttl descr due prio) = todos_seq db + 1"
  by (simp add: add_todo_def Let_def)

text \<open>
  Claim C3, as the code has it. \<^verbatim>\<open>Database.add_todo\<close> does not look at the title: with
  any title, the empty one included, it appends the todo and returns its identifier.
  The empty title is refused by the caller: \<^verbatim>\<open>TodoApp.save_todo\<close> with an empty title
  shows an error and leaves the store as it is.
\<close>

theorem add_todo_empty_title:
  "todos (snd (add_todo db uid d [] descr due prio)) =
     todos db @
     [\<lparr>todo_id = todos_seq db + 1, user_id = uid, date = d, title = [], description = descr,
       status = ''pending'', due_time = due, completed_date = None, priority = prio\<rparr>] \<and>
   fst (add_todo db uid d [] descr due prio) = todos_seq db + 1 \<and>
   snd (save_todo validate_time_format db uid (f\<lparr>title_entry := []\<rparr>) cd ct) = db \<and>
   fst (save_todo validate_time_format db uid (f\<lparr>title_entry := []\<rparr>) cd ct) =
     (if due_time_entry f \<noteq> [] \<and> \<not> validate_time_format (due_time_entry f)
      then ShowError ''Due time must be in HH:MM format''
      else ShowError ''Title is required'')"
  by (simp add: add_todo_todos add_todo_fst save_todo_def)

text \<open>On the empty store, a call with an empty title inserts the todo 1.\<close>

theorem add_todo_empty_title_counterexample:
  "add_todo init_db 1 ''2024-01-10'' [] [] None ''medium'' =
     (1, \<lparr>users = [], users_seq = 0,
          todos = [\<lparr>todo_id = 1, user_id = 1, date = ''2024-01-10'', title = [],
                    description = [], status = ''pending'', due_time = None,
                    completed_date = None, priority = ''medium''\<rparr>],
          todos_seq = 1\<rparr>)"
  by (simp add: add_todo_def init_db_def)

subsection \<open>Search\<close>

text \<open>
  Claim C2. The view calls \<^verbatim>\<open>self.db.search_todos(self.user_id, keyword)\<close>; the method of
  that name in \<^verbatim>\<open>Database\<close> takes no argument, so the call raises \<^verbatim>\<open>TypeError\<close> for every
  store, user and keyword, and a search with a keyword ends in that error.
\<close>

theorem search_todos_raises:
  "Database_search_todos db [PyInt uid, PyStr keyword] = Inl TypeError \<and>
   TodoApp_search_todos db uid (c # keyword) = Inl TypeError"
  by (simp add: Database_search_todos_def TodoApp_search_todos_def)

subsection \<open>Passwords that derive the same key\<close>

lemma encode_append: "encode (a @ b) = encode a @ encode b"
  by (simp add: encode_def)

lemma encode_nul: "encode [CHR 0x00] = [0]"
  by (simp add: encode_def)

lemma length_encode: "length (encode s) = length s"
  by (simp add: encode_def)

lemma hmac_key_trailing_zero:
  assumes "length k < 64"
  shows "hmac_key H (k @ [0]) = hmac_key H k"
proof -
  have "replicate (64 - length k) (0 :: 8 word) = 0 # replicate (64 - Suc (length k)) 0"
    using assms by (cases "64 - length k") (simp_all add: Suc_diff_Suc)
  with assms show ?thesis
    by (simp add: hmac_key_def)
qed

lemma hmac_same_key: "hmac_key H k = hmac_key H k' \<Longrightarrow> hmac H k m = hmac H k' m"
  by (simp add: hmac_def)

lemma pbkdf2_rounds_same_key:
  "hmac_key H k = hmac_key H k' \<Longrightarrow> pbkdf2_rounds H k n u t = pbkdf2_rounds H k' n u t"
  by (induction n arbitrary: u t) (simp_all add: hmac_same_key [of H k k'])

lemma pbkdf2_hmac_same_key:
  "hmac_key H k = hmac_key H k' \<Longrightarrow> pbkdf2_hmac H k s c = pbkdf2_hmac H k' s c"
  by (simp add: pbkdf2_hmac_def hmac_same_key [of H k k'] pbkdf2_rounds_same_key [of H k k'])

lemma pbkdf2_hmac_sha256_trailing_nul:
  "length password < 64 \<Longrightarrow>
   pbkdf2_hmac_sha256 (encode (password @ [CHR 0x00])) salt =
     pbkdf2_hmac_sha256 (encode password) salt"
  unfolding pbkdf2_hmac_sha256_def encode_append encode_nul
  by (rule pbkdf2_hmac_same_key) (simp add: hmac_key_trailing_zero length_encode)

subsection \<open>Registration and login\<close>

lemma verify_password_hash_password:
  "length salt = 32 \<Longrightarrow>
   verify_password kdf (hash_password kdf password salt) provided =
     (kdf (encode provided) salt = kdf (encode password) salt)"
  by (simp add: verify_password_def hash_password_def)

lemma find_filter:
  "find P xs = (case filter P xs of [] \<Rightarrow> None | x # ys \<Rightarrow> Some x)"
  by (induction xs) simp_all

lemma register_user_users:
  "fst (register_user kdf db uname password salt) \<Longrightarrow>
   uname \<notin> set (map username (users db)) \<and>
   users (snd (register_user kdf db uname password salt)) =
     users db @ [\<lparr>u_id = users_seq db + 1, username = uname,
                  password_hash = hash_password kdf password salt\<rparr>]"
  by (simp add: register_user_def split: if_splits)

lemma step_users:
  "step kdf db db' \<Longrightarrow>
   users db' = users db \<or>
   (\<exists>r. users db' = users db @ [r] \<and> username r \<notin> set (map username (users db)))"
proof (induction rule: step.induct)
  case (step_register salt db uname password)
  then show ?case by (simp add: register_user_def)
next
  case (step_add db uid d ttl descr due prio)
  then show ?case by (simp add: add_todo_def Let_def)
next
  case (step_update db tid ttl descr due prio)
  then show ?case by (simp add: update_todo_rest)
next
  case (step_delete db tid)
  then show ?case by (simp add: delete_todo_def sql_delete_def split_beta)
next
  case (step_done db now tid)
  then show ?case by (simp add: mark_todo_as_done_def sql_update_def split_beta)
next
  case (step_pending db tid)
  then show ?case by (simp add: mark_todo_as_pending_def sql_update_def split_beta)
qed

lemma step_keeps_user:
  assumes "step kdf db db'" "filter (\<lambda>r. username r = uname) (users db) = [new]"
  shows "filter (\<lambda>r. username r = uname) (users db') = [new]"
proof -
  from assms(2) have "new \<in> set (filter (\<lambda>r. username r = uname) (users db))"
    by simp
  then have "uname \<in> set (map username (users db))"
    by auto
  with step_users [OF assms(1)] assms(2) show ?thesis
    by auto
qed

lemma steps_keep_user:
  assumes "(step kdf)\<^sup>*\<^sup>* db db'" "filter (\<lambda>r. username r = uname) (users db) = [new]"
  shows "filter (\<lambda>r. username r = uname) (users db') = [new]"
  using assms by (induction rule: rtranclp_induct) (simp_all add: step_keeps_user)

lemma registered_user_row:
  assumes "fst (register_user kdf db0 uname password salt)"
    and "(step kdf)\<^sup>*\<^sup>* (snd (register_user kdf db0 uname password salt)) db"
  shows "filter (\<lambda>r. username r = uname) (users db) =
    [\<lparr>u_id = users_seq db0 + 1, username = uname,
      password_hash = hash_password kdf password salt\<rparr>]"
proof -
  from register_user_users [OF assms(1)]
  have "filter (\<lambda>r. username r = uname)
      (users (snd (register_user kdf db0 uname password salt))) =
    [\<lparr>u_id = users_seq db0 + 1, username = uname,
      password_hash = hash_password kdf password salt\<rparr>]"
    by (auto simp add: filter_empty_conv)
  with assms(2) show ?thesis
    by (rule steps_keep_user)
qed

lemma authenticate_user_after_register:
  assumes "length salt = 32"
    and "fst (register_user kdf db0 uname password salt)"
    and "(step kdf)\<^sup>*\<^sup>* (snd (register_user kdf db0 uname password salt)) db"
  shows "authenticate_user kdf db uname provided =
    (if kdf (encode provided) salt = kdf (encode password) salt
     then Some (users_seq db0 + 1) else None)"
  using assms(1)
  by (simp add: authenticate_user_def find_filter registered_user_row [OF assms(2,3)]
      verify_password_hash_password)

lemma authenticate_user_unknown:
  "uname \<notin> set (map username (users db)) \<Longrightarrow> authenticate_user kdf db uname provided = None"
proof -
  assume "uname \<notin> set (map username (users db))"
  then have "filter (\<lambda>r. username r = uname) (users db) = []"
    by (auto simp add: filter_empty_conv)
  then show ?thesis
    by (simp add: authenticate_user_def find_filter)
qed

text \<open>
  Claim C6, as the code has it. Let a registration of a user name and password succeed,
  with a salt of 32 bytes, and let any calls of mutating operations follow. Then the
  table has one user of that name, with the identifier the registration assigned;
  \<^verbatim>\<open>authenticate_user\<close> with the name and the password returns it; with the name and
  another password it returns the identifier when that password derives, under the
  stored salt, the key of the registered one, and \<^verbatim>\<open>None\<close> otherwise; and with a name no
  user has it returns \<^verbatim>\<open>None\<close>, the result of a wrong password.
\<close>

theorem authenticate_user_registered:
  assumes "length salt = 32"
    and "fst (register_user kdf db0 uname password salt)"
    and "(step kdf)\<^sup>*\<^sup>* (snd (register_user kdf db0 uname password salt)) db"
  shows "authenticate_user kdf db uname password = Some (users_seq db0 + 1) \<and>
    map u_id (filter (\<lambda>r. username r = uname) (users db)) = [users_seq db0 + 1] \<and>
    authenticate_user kdf db uname provided =
      (if kdf (encode provided) salt = kdf (encode password) salt
       then Some (users_seq db0 + 1) else None) \<and>
    (unknown \<notin> set (map username (users db)) \<longrightarrow>
       authenticate_user kdf db unknown provided' = None)"
proof -
  have "authenticate_user kdf db uname password = Some (users_seq db0 + 1)"
    by (simp add: authenticate_user_after_register [OF assms])
  moreover have "map u_id (filter (\<lambda>r. username r = uname) (users db)) = [users_seq db0 + 1]"
    by (simp add: registered_user_row [OF assms(2,3)])
  moreover have "authenticate_user kdf db uname provided =
      (if kdf (encode provided) salt = kdf (encode password) salt
       then Some (users_seq db0 + 1) else None)"
    by (rule authenticate_user_after_register [OF assms])
  ultimately show ?thesis
    using authenticate_user_unknown [of unknown db kdf provided'] by blast
qed

text \<open>
  Alice registers with the password \<open>pw\<close> and adds a todo: she logs in with \<open>pw\<close>, and
  nobody logs in as Bob.
\<close>

theorem authenticate_user_registered_witness:
  "fst (register_user pbkdf2_hmac_sha256 init_db ''alice'' ''pw'' (replicate 32 0)) \<and>
   authenticate_user pbkdf2_hmac_sha256
     (snd (add_todo (snd (register_user pbkdf2_hmac_sha256 init_db ''alice'' ''pw'' (replicate 32 0)))
        1 ''2024-01-10'' ''Buy milk'' [] None ''high''))
     ''alice'' ''pw'' = Some 1 \<and>
   authenticate_user pbkdf2_hmac_sha256
     (snd (add_todo (snd (register_user pbkdf2_hmac_sha256 init_db ''alice'' ''pw'' (replicate 32 0)))
        1 ''2024-01-10'' ''Buy milk'' [] None ''high''))
     ''bob'' ''pw'' = None"
proof -
  have l: "length (replicate 32 (0 :: 8 word)) = 32"
    by simp
  have r: "fst (register_user pbkdf2_hmac_sha256 init_db ''alice'' ''pw'' (replicate 32 0))"
    by (simp add: register_user_def init_db_def)
  have s: "(step pbkdf2_hmac_sha256)\<^sup>*\<^sup>*
     (snd (register_user pbkdf2_hmac_sha256 init_db ''alice'' ''pw'' (replicate 32 0)))
     (snd (add_todo (snd (register_user pbkdf2_hmac_sha256 init_db ''alice'' ''pw'' (replicate 32 0)))
        1 ''2024-01-10'' ''Buy milk'' [] None ''high''))"
    by (rule r_into_rtranclp) (rule step_add)
  have u: "''bob'' \<notin> set (map username (users
     (snd (add_todo (snd (register_user pbkdf2_hmac_sha256 init_db ''alice'' ''pw'' (replicate 32 0)))
        1 ''2024-01-10'' ''Buy milk'' [] None ''high''))))"
    by (simp add: add_todo_def register_user_def init_db_def)
  have i: "users_seq init_db + 1 = 1"
    by (simp add: init_db_def)
  show ?thesis
    using r u authenticate_user_registered [OF l r s, of "''pw''" "''bob''" "''pw''"]
    unfolding i by blast
qed

text \<open>
  Alice registers with the password \<open>pw\<close>. The password \<open>pw\<close> followed by the character
  of code 0 is another password, and logs her in: HMAC fills a short key with zeros, so
  both derive the same key under every salt.
\<close>

theorem authenticate_user_wrong_password_counterexample:
  "''pw'' @ [CHR 0x00] \<noteq> ''pw'' \<and>
   fst (register_user pbkdf2_hmac_sha256 init_db ''alice'' ''pw'' (replicate 32 0)) \<and>
   authenticate_user pbkdf2_hmac_sha256
     (snd (register_user pbkdf2_hmac_sha256 init_db ''alice'' ''pw'' (replicate 32 0)))
     ''alice'' (''pw'' @ [CHR 0x00]) = Some 1"
proof -
  have l: "length (replicate 32 (0 :: 8 word)) = 32"
    by simp
  have r: "fst (register_user pbkdf2_hmac_sha256 init_db ''alice'' ''pw'' (replicate 32 0))"
    by (simp add: register_user_def init_db_def)
  have k: "pbkdf2_hmac_sha256 (encode (''pw'' @ [CHR 0x00])) (replicate 32 0) =
     pbkdf2_hmac_sha256 (encode ''pw'') (replicate 32 0)"
    by (rule pbkdf2_hmac_sha256_trailing_nul) simp
  have "authenticate_user pbkdf2_hmac_sha256
     (snd (register_user pbkdf2_hmac_sha256 init_db ''alice'' ''pw'' (replicate 32 0)))
     ''alice'' (''pw'' @ [CHR 0x00]) = Some (users_seq init_db + 1)"
    using authenticate_user_after_register [OF l r rtranclp.rtrancl_refl, of "''pw'' @ [CHR 0x00]"]
    by (simp only: k simp_thms if_True)
  then show ?thesis
    using r by (simp add: init_db_def)
qed

subsection \<open>Texts of times, and further properties\<close>

lemma digit_less:
  "a < 10 \<Longrightarrow> b < 10 \<Longrightarrow> (char_of (48 + a) < char_of (48 + b)) = ((a :: nat) < b)"
  by (simp add: less_char_def)

lemma digit_eq:
  "a < 10 \<Longrightarrow> b < 10 \<Longrightarrow> (char_of (48 + a) = char_of (48 + b)) = ((a :: nat) = b)"
  by (simp add: char_of_eq_iff take_bit_eq_mod)

lemma lex_base_10:
  fixes q r q' r' :: nat
  assumes "r < 10" "r' < 10"
  shows "(q < q' \<or> q = q' \<and> (r < r' \<or> r = r' \<and> P)) =
    (10 * q + r < 10 * q' + r' \<or> 10 * q + r = 10 * q' + r' \<and> P)"
  using assms by (cases P) auto

lemma two_digits_less:
  assumes "a < 100" "b < 100"
  shows "(two_digits a @ xs < two_digits b @ ys) = (a < b \<or> a = b \<and> xs < ys)"
proof -
  have t: "a div 10 < 10" "b div 10 < 10"
    using assms by simp_all
  have u: "a mod 10 < 10" "b mod 10 < 10"
    by simp_all
  have "(two_digits a @ xs < two_digits b @ ys) =
    (a div 10 < b div 10 \<or> a div 10 = b div 10 \<and>
      (a mod 10 < b mod 10 \<or> a mod 10 = b mod 10 \<and> xs < ys))"
    by (simp only: two_digits_def append.simps Cons_less_Cons
        digit_less [OF t] digit_less [OF u] digit_eq [OF t] digit_eq [OF u])
  also have "\<dots> = (10 * (a div 10) + a mod 10 < 10 * (b div 10) + b mod 10 \<or>
      10 * (a div 10) + a mod 10 = 10 * (b div 10) + b mod 10 \<and> xs < ys)"
    by (rule lex_base_10 [OF u])
  finally show ?thesis
    by (simp only: mult_div_mod_eq)
qed

text \<open>
  Two times of day written by \<^verbatim>\<open>%H:%M\<close> compare as texts the way the
  times do: the comparison \<^verbatim>\<open>due_time < current_time\<close> of the queries is the order of
  the clock on due times written with two digits each.
\<close>

theorem strftime_HM_less:
  assumes "h < 24" "m < 60" "h' < 24" "m' < 60"
  shows "(strftime_HM h m < strftime_HM h' m') = (h < h' \<or> h = h' \<and> m < m')"
proof -
  have "(two_digits m @ [] < two_digits m' @ []) = (m < m')"
    using assms by (subst two_digits_less) simp_all
  then have "('':'' @ two_digits m < '':'' @ two_digits m') = (m < m')"
    by simp
  with assms show ?thesis
    unfolding strftime_HM_def by (subst two_digits_less) simp_all
qed

theorem strftime_HM_less_witness:
  "strftime_HM 9 59 = ''09:59'' \<and> strftime_HM 10 0 = ''10:00'' \<and>
   strftime_HM 9 59 < strftime_HM 10 0"
proof -
  have e: "strftime_HM 9 59 = ''09:59''" "strftime_HM 10 0 = ''10:00''"
    by code_simp+
  show ?thesis
    using strftime_HM_less [of 9 59 10 0] by (simp add: e)
qed

text \<open>
  After a registration of a user name, a further registration of the name
  returns false and leaves the store, the first record included, as it was.
\<close>

theorem register_user_twice:
  "register_user kdf (snd (register_user kdf db uname password salt)) uname password' salt' =
     (False, snd (register_user kdf db uname password salt))"
  by (simp add: register_user_def)

text \<open>
  A todo just added is among the todos of its user and date, with the
  identifier \<^verbatim>\<open>add_todo\<close> returned, the fields as supplied and the status pending.
\<close>

theorem add_todo_get_todos_by_date:
  "fst (add_todo db uid d ttl descr due prio) = todos_seq db + 1 \<and>
   (todos_seq db + 1, d, ttl, descr, ''pending'', due, prio)
     \<in> set (get_todos_by_date (snd (add_todo db uid d ttl descr due prio)) uid d)"
  by (simp add: get_todos_by_date_def rows_by_date_def add_todo_def Let_def select_cols_def)

text \<open>
  The example of the specification: of two todos of one day, the one of
  high priority comes before the one of low priority.
\<close>

theorem get_todos_by_date_example:
  "get_todos_by_date
     (snd (add_todo (snd (add_todo init_db 1 ''2024-01-10'' ''Buy milk'' [] None ''high''))
        1 ''2024-01-10'' ''Call bank'' [] None ''low'')) 1 ''2024-01-10'' =
     [(1, ''2024-01-10'', ''Buy milk'', [], ''pending'', None, ''high''),
      (2, ''2024-01-10'', ''Call bank'', [], ''pending'', None, ''low'')]"
  by (simp add: get_todos_by_date_def rows_by_date_def add_todo_def init_db_def select_cols_def
      priority_rank_def)

end
